theory Spec2Isabelle
  imports Main
begin

section \<open>The command-line tool \<^verbatim>\<open>fhicl-dump\<close> (tools/fhicl-dump.cc)\<close>

text \<open>
  The tool parses its command line, selects a file-path policy, forms a parameter set
  from the input file and prints it.  Its collaborators from boost, cetlib and the
  fhicl library proper (\<^verbatim>\<open>cet::parsed_program_options\<close>, \<^verbatim>\<open>fhicl::parse_document\<close>,
  \<^verbatim>\<open>fhicl::make_ParameterSet\<close>) are not part of the sources at hand, so their results
  enter the model as arguments.  What is written to the output streams is not modelled,
  only the control flow and the exit status.
\<close>

subsection \<open>Exceptions\<close>

text \<open>
  Three kinds of C++ exception are told apart by the handlers of \<^verbatim>\<open>main\<close>:
  \<^verbatim>\<open>cet::exception\<close> (with its category and the text appended to it),
  \<^verbatim>\<open>std::runtime_error\<close>, and anything else.
\<close>

datatype exn =
    Cet_exception string string
  | Runtime_error string
  | Other_exception

text \<open>The error categories, as the string constants of the anonymous namespace.\<close>

definition help_category :: string where
  "help_category = ''Help''"

definition processing :: string where
  "processing = ''Processing''"

definition config :: string where
  "config = ''Configuration''"

definition fhicl_env_var :: string where
  "fhicl_env_var = ''FHICL_FILE_PATH''"

subsection \<open>Options\<close>

datatype print_mode = raw | annotated | prefix_annotated

record Options =
  mode :: print_mode
  quiet :: bool
  output_filename :: string
  input_filename :: string
  lookup_policy :: int
  lookup_path :: string

text \<open>
  A default-constructed \<^verbatim>\<open>Options\<close>: the member initialisers of the struct
  (\<^verbatim>\<open>int lookup_policy{}\<close> is zero, the strings are empty).
\<close>

definition Options_init :: Options where
  "Options_init =
     \<lparr>mode = raw, quiet = False, output_filename = [], input_filename = [],
      lookup_policy = 0, lookup_path = []\<rparr>"

text \<open>
  What \<^verbatim>\<open>cet::parsed_program_options\<close> hands back for a command line that parses:
  for each option of the description, whether (and with which value) it occurs.  The
  fields follow the \<^verbatim>\<open>add_options()\<close> table; \<^verbatim>\<open>config\<close> is also the positional
  option.
\<close>

record variables_map =
  vm_help :: bool
  vm_config :: "string option"
  vm_output :: "string option"
  vm_annotate :: bool
  vm_prefix_annotate :: bool
  vm_quiet :: bool
  vm_lookup_policy :: "int option"
  vm_path :: "string option"

subsection \<open>Argument processing\<close>

text \<open>
  \<^verbatim>\<open>process_arguments\<close>.  The first argument is the printed options description
  (it is part of one error text), the second the outcome of
  \<^verbatim>\<open>cet::parsed_program_options\<close>: an exception, which propagates, or the variables
  map.  The values bound by \<^verbatim>\<open>bpo::value<..>(&opts.field)\<close> are stored when the option
  occurs; \<^verbatim>\<open>lookup-policy\<close> and \<^verbatim>\<open>path\<close> have the default values \<open>1\<close> and
  \<^verbatim>\<open>FHICL_FILE_PATH\<close>.  The checks follow in the order of the source.
\<close>

definition process_arguments :: "string \<Rightarrow> exn + variables_map \<Rightarrow> exn + Options" where
  "process_arguments desc parsed =
     (case parsed of
        Inl e \<Rightarrow> Inl e
      | Inr vm \<Rightarrow>
          let opts = Options_init
                \<lparr>input_filename := (case vm_config vm of Some f \<Rightarrow> f | None \<Rightarrow> []),
                 output_filename := (case vm_output vm of Some f \<Rightarrow> f | None \<Rightarrow> []),
                 lookup_policy := (case vm_lookup_policy vm of Some l \<Rightarrow> l | None \<Rightarrow> 1),
                 lookup_path := (case vm_path vm of Some p \<Rightarrow> p | None \<Rightarrow> fhicl_env_var)\<rparr>;
              annotate = vm_annotate vm;
              prefix_annotate = vm_prefix_annotate vm
          in
          if vm_help vm then Inl (Cet_exception help_category [])
          else if vm_quiet vm \<and> (annotate \<or> prefix_annotate) then
            Inl (Cet_exception config
              ''Cannot specify both '--quiet' and '--(prefix-)annotate' options.\<newline>'')
          else
            let opts = (if vm_quiet vm then opts\<lparr>quiet := True\<rparr> else opts) in
            if annotate \<and> prefix_annotate then
              Inl (Cet_exception config
                ''Cannot specify both '--annotate' and '--prefix-annotate' options.\<newline>'')
            else
              let opts = (if annotate then opts\<lparr>mode := annotated\<rparr> else opts);
                  opts = (if prefix_annotate then opts\<lparr>mode := prefix_annotated\<rparr> else opts)
              in
              if vm_config vm = None then
                Inl (Cet_exception config
                  (''\<newline>Missing input configuration file.\<newline>\<newline>'' @ desc @ ''\<newline>''))
              else Inr opts)"

subsection \<open>The lookup policy\<close>

text \<open>The four classes of cetlib that \<^verbatim>\<open>get_policy\<close> constructs.\<close>

datatype filepath_maker =
    filepath_maker
  | filepath_lookup string
  | filepath_lookup_nonabsolute string
  | filepath_lookup_after1 string

text \<open>Decimal output of an \<^verbatim>\<open>int\<close>, as \<^verbatim>\<open>operator<<\<close> writes it.\<close>

definition digit_char :: "nat \<Rightarrow> char" where
  "digit_char d = ''0123456789'' ! d"

fun show_nat :: "nat \<Rightarrow> string" where
  "show_nat n =
     (if n < 10 then [digit_char n]
      else show_nat (n div 10) @ [digit_char (n mod 10)])"

definition show_int :: "int \<Rightarrow> string" where
  "show_int i = (if i < 0 then CHR ''-'' # show_nat (nat (- i)) else show_nat (nat i))"

definition get_policy :: "int \<Rightarrow> string \<Rightarrow> exn + filepath_maker" where
  "get_policy policy_code path =
     (if policy_code = 0 then Inr filepath_maker
      else if policy_code = 1 then Inr (filepath_lookup path)
      else if policy_code = 2 then Inr (filepath_lookup_nonabsolute path)
      else if policy_code = 3 then Inr (filepath_lookup_after1 path)
      else Inl (Runtime_error
        (''Error: command line lookup-policy '' @ show_int policy_code @
         '' is unknown; choose 0, 1, 2, or 3\<newline>'')))"

subsection \<open>The main program\<close>

text \<open>
  How a run ends: with an exit status, or through \<^verbatim>\<open>std::terminate\<close> when an
  exception leaves \<^verbatim>\<open>main\<close>.
\<close>

datatype outcome = Exit int | Terminate exn

text \<open>
  The part of \<^verbatim>\<open>main\<close> after the first \<^verbatim>\<open>try\<close> block.  \<^verbatim>\<open>get_policy\<close> is called
  outside of any \<^verbatim>\<open>try\<close>; \<^verbatim>\<open>form_pset\<close> is guarded by a handler for
  \<^verbatim>\<open>cet::exception\<close> and a catch-all.  Both the quiet and the printing path leave
  \<^verbatim>\<open>main\<close> with status 0.
\<close>

definition main_rest ::
  "(string \<Rightarrow> filepath_maker \<Rightarrow> exn + 'pset) \<Rightarrow> Options \<Rightarrow> outcome" where
  "main_rest form_pset opts =
     (case get_policy (lookup_policy opts) (lookup_path opts) of
        Inl e \<Rightarrow> Terminate e
      | Inr policy \<Rightarrow>
          (case form_pset (input_filename opts) policy of
             Inl (Cet_exception c m) \<Rightarrow> Exit 4
           | Inl _ \<Rightarrow> Exit 5
           | Inr pset \<Rightarrow> if quiet opts then Exit 0 else Exit 0))"

text \<open>
  \<^verbatim>\<open>main\<close>.  The first handler catches \<^verbatim>\<open>cet::exception\<close> only; when the category
  is none of the three, the handler falls through and the run goes on with the
  default-constructed options.
\<close>

definition main ::
  "string \<Rightarrow> exn + variables_map \<Rightarrow> (string \<Rightarrow> filepath_maker \<Rightarrow> exn + 'pset) \<Rightarrow> outcome" where
  "main desc parsed form_pset =
     (case process_arguments desc parsed of
        Inl (Cet_exception c m) \<Rightarrow>
          if c = help_category then Exit 1
          else if c = processing then Exit 2
          else if c = config then Exit 3
          else main_rest form_pset Options_init
      | Inl e \<Rightarrow> Terminate e
      | Inr opts \<Rightarrow> main_rest form_pset opts)"

subsection \<open>Sample runs\<close>

text \<open>
  A \<^verbatim>\<open>form_pset\<close> that succeeds on every file, and three command lines:
  \<^verbatim>\<open>fhicl-dump -l 7 -c in.fcl\<close>, \<^verbatim>\<open>fhicl-dump -h -q -a in.fcl\<close> and
  \<^verbatim>\<open>fhicl-dump -q -a in.fcl\<close>.
\<close>

definition form_pset_ok :: "string \<Rightarrow> filepath_maker \<Rightarrow> exn + unit" where
  "form_pset_ok filename policy = Inr ()"

definition vm_policy_7 :: variables_map where
  "vm_policy_7 =
     \<lparr>vm_help = False, vm_config = Some ''in.fcl'', vm_output = None, vm_annotate = False,
      vm_prefix_annotate = False, vm_quiet = False, vm_lookup_policy = Some 7,
      vm_path = None\<rparr>"

definition vm_help_quiet_annotate :: variables_map where
  "vm_help_quiet_annotate =
     \<lparr>vm_help = True, vm_config = Some ''in.fcl'', vm_output = None, vm_annotate = True,
      vm_prefix_annotate = False, vm_quiet = True, vm_lookup_policy = None,
      vm_path = None\<rparr>"

definition vm_quiet_annotate :: variables_map where
  "vm_quiet_annotate =
     \<lparr>vm_help = False, vm_config = Some ''in.fcl'', vm_output = None, vm_annotate = True,
      vm_prefix_annotate = False, vm_quiet = True, vm_lookup_policy = None,
      vm_path = None\<rparr>"

section \<open>Optional tuples (fhiclcpp/types/OptionalTuple.h)\<close>

text \<open>
  \<^verbatim>\<open>OptionalTuple<TYPES...>\<close> is a class template.  The pack \<^verbatim>\<open>TYPES...\<close> becomes
  a list over a type \<open>'t\<close> of element types, the tuple \<^verbatim>\<open>ftype\<close> of shared pointers
  to element descriptors a list of element records, and the tuple \<^verbatim>\<open>rtype\<close> of return
  values a list over a type \<open>'v\<close> of values.

  The base classes, the registries and the type traits live in headers that are not
  part of the sources at hand.  The registries (\<^verbatim>\<open>RegisterIfTableMember\<close>,
  \<^verbatim>\<open>NameStackRegistry::end_of_ctor\<close>) only record the object under construction and
  are left out; what the class reads of the traits is passed in as a record.
\<close>

subsection \<open>Metadata and traits\<close>

text \<open>The tags handed to the \<^verbatim>\<open>SequenceBase\<close> constructor.\<close>

datatype value_type = REQUIRED | REQUIRED_CONDITIONAL | DEFAULT | OPTIONAL

datatype par_type = ATOM | TABLE | SEQUENCE | TUPLE

text \<open>
  The messages of the two \<^verbatim>\<open>static_assert\<close>s.  A failed assertion rejects the program
  that instantiates the template; in the model the instantiated function returns the
  message instead of a result.
\<close>

datatype static_assert_message = NO_NESTED_TABLE_FRAGMENTS | NO_OPTIONAL_TYPES

text \<open>
  The traits of namespace \<^verbatim>\<open>tt\<close> that the class uses on an element type:
  \<^verbatim>\<open>tt::is_table_fragment\<close>, \<^verbatim>\<open>tt::is_optional_parameter\<close>, and the
  value-initialised object of \<^verbatim>\<open>tt::return_type\<close>.
\<close>

record ('t, 'v) tt =
  is_table_fragment :: "'t \<Rightarrow> bool"
  is_optional_parameter :: "'t \<Rightarrow> bool"
  return_type_init :: "'t \<Rightarrow> 'v"

text \<open>
  Modelled from the spec: \<^verbatim>\<open>Name::sequence_element\<close> (fhiclcpp/types/Name.h is not among
  the sources).  The specification calls it the index-derived synthetic name of an
  element, \<^verbatim>\<open>parent[0]\<close>, \<^verbatim>\<open>parent[1]\<close>; the name itself is the bracketed index, which
  the registry appends to the parent's key.
\<close>

definition sequence_element :: "nat \<Rightarrow> string" where
  "sequence_element i = ''['' @ show_nat i @ '']''"

subsection \<open>Element descriptors\<close>

text \<open>
  An element descriptor, as far as the tuple looks at it: its type, the name it was
  constructed with, and the value its call operator returns.
\<close>

record ('t, 'v) element =
  elem_type :: 't
  elem_name :: string
  elem_value :: 'v

text \<open>\<^verbatim>\<open>std::make_shared<elem_ftype>(name)\<close>: a fresh element descriptor of the given type.\<close>

definition make_shared :: "('t, 'v) tt \<Rightarrow> 't \<Rightarrow> string \<Rightarrow> ('t, 'v) element" where
  "make_shared traits E nm =
     \<lparr>elem_type = E, elem_name = nm, elem_value = return_type_init traits E\<rparr>"

subsection \<open>The class\<close>

text \<open>
  The first four fields are what the constructor hands to \<^verbatim>\<open>SequenceBase\<close>;
  \<open>ot_value\<close> and \<open>ot_has_value\<close> are the members \<^verbatim>\<open>value_\<close> and \<^verbatim>\<open>has_value_\<close>.
\<close>

record ('t, 'v) OptionalTuple =
  ot_name :: string
  ot_comment :: string
  ot_value_type :: value_type
  ot_par_type :: par_type
  ot_value :: "('t, 'v) element list"
  ot_has_value :: bool

definition get_size :: "('t, 'v) OptionalTuple \<Rightarrow> nat" where
  "get_size ot = length (ot_value ot)"

text \<open>
  \<^verbatim>\<open>finalize_tuple_elements\<close>: the recursion over the pack.  Both assertions are made
  for the head of the pack, the head is constructed with the name of index \<open>i\<close>, and
  the rest follows with \<open>i + 1\<close>.
\<close>

fun finalize_tuple_elements ::
  "('t, 'v) tt \<Rightarrow> nat \<Rightarrow> 't list \<Rightarrow> static_assert_message + ('t, 'v) element list" where
  "finalize_tuple_elements traits i [] = Inr []"
| "finalize_tuple_elements traits i (E # T) =
     (if is_table_fragment traits E then Inl NO_NESTED_TABLE_FRAGMENTS
      else if is_optional_parameter traits E then Inl NO_OPTIONAL_TYPES
      else
        let elem = make_shared traits E (sequence_element i) in
        case finalize_tuple_elements traits (i + 1) T of
          Inl msg \<Rightarrow> Inl msg
        | Inr others \<Rightarrow> Inr (elem # others))"

definition finalize_elements ::
  "('t, 'v) tt \<Rightarrow> 't list \<Rightarrow> static_assert_message + ('t, 'v) element list" where
  "finalize_elements traits TYPES = finalize_tuple_elements traits 0 TYPES"

text \<open>
  The constructors.  The two-argument one initialises the base with the tags
  \<^verbatim>\<open>value_type::OPTIONAL\<close> and \<^verbatim>\<open>par_type::TUPLE\<close> and finalises the elements;
  \<^verbatim>\<open>has_value_\<close> keeps its member initialiser \<^verbatim>\<open>false\<close>.  The one-argument one
  delegates with an empty comment.  There is no third constructor.
\<close>

definition OptionalTuple_ctor ::
  "('t, 'v) tt \<Rightarrow> 't list \<Rightarrow> string \<Rightarrow> string \<Rightarrow>
     static_assert_message + ('t, 'v) OptionalTuple" where
  "OptionalTuple_ctor traits TYPES nm cmt =
     (case finalize_elements traits TYPES of
        Inl msg \<Rightarrow> Inl msg
      | Inr elems \<Rightarrow>
          Inr \<lparr>ot_name = nm, ot_comment = cmt, ot_value_type = OPTIONAL,
               ot_par_type = TUPLE, ot_value = elems, ot_has_value = False\<rparr>)"

definition OptionalTuple_ctor_name ::
  "('t, 'v) tt \<Rightarrow> 't list \<Rightarrow> string \<Rightarrow> static_assert_message + ('t, 'v) OptionalTuple" where
  "OptionalTuple_ctor_name traits TYPES nm = OptionalTuple_ctor traits TYPES nm []"

text \<open>
  \<^verbatim>\<open>visit_element\<close> and \<^verbatim>\<open>do_walk_elements\<close> for the walker that may change what it
  visits: the walker is a function from an element and the walker's state to the
  element and the state afterwards.  The walker for constant elements differs only in
  leaving the elements as they are.
\<close>

fun visit_element ::
  "('t, 'v) tt \<Rightarrow> (('t, 'v) element \<Rightarrow> 'w \<Rightarrow> ('t, 'v) element \<times> 'w) \<Rightarrow> 'w \<Rightarrow>
     ('t, 'v) element list \<Rightarrow> static_assert_message + ('t, 'v) element list \<times> 'w" where
  "visit_element traits pw w [] = Inr ([], w)"
| "visit_element traits pw w (elem # others) =
     (if is_table_fragment traits (elem_type elem) then Inl NO_NESTED_TABLE_FRAGMENTS
      else if is_optional_parameter traits (elem_type elem) then Inl NO_OPTIONAL_TYPES
      else
        let (elem', w') = pw elem w in
        case visit_element traits pw w' others of
          Inl msg \<Rightarrow> Inl msg
        | Inr (others', w'') \<Rightarrow> Inr (elem' # others', w''))"

definition do_walk_elements ::
  "('t, 'v) tt \<Rightarrow> (('t, 'v) element \<Rightarrow> 'w \<Rightarrow> ('t, 'v) element \<times> 'w) \<Rightarrow> 'w \<Rightarrow>
     ('t, 'v) OptionalTuple \<Rightarrow> static_assert_message + ('t, 'v) OptionalTuple \<times> 'w" where
  "do_walk_elements traits pw w ot =
     (case visit_element traits pw w (ot_value ot) of
        Inl msg \<Rightarrow> Inl msg
      | Inr (elems, w') \<Rightarrow> Inr (ot\<lparr>ot_value := elems\<rparr>, w'))"

text \<open>
  \<^verbatim>\<open>fill_return_element<I>\<close>: the overload for \<open>I\<close> at or beyond the tuple size does
  nothing; the other stores the value of element \<open>I\<close> at position \<open>I\<close> of the result
  and goes on with \<open>I + 1\<close>.
\<close>

function fill_return_element ::
  "('t, 'v) OptionalTuple \<Rightarrow> nat \<Rightarrow> 'v list \<Rightarrow> 'v list" where
  "fill_return_element ot I result =
     (if I \<ge> get_size ot then result
      else fill_return_element ot (I + 1) (result[I := elem_value (ot_value ot ! I)]))"
  by pat_completeness auto
termination
  by (relation "measure (\<lambda>(ot, I, result). get_size ot - I)") auto

declare fill_return_element.simps [simp del]

definition assemble_rtype :: "('t, 'v) OptionalTuple \<Rightarrow> 'v list \<Rightarrow> 'v list" where
  "assemble_rtype ot result = fill_return_element ot 0 result"

text \<open>
  \<^verbatim>\<open>do_set_value\<close>: the parameter set and the flag are ignored, the descriptor is
  marked as having a value.
\<close>

definition do_set_value ::
  "('t, 'v) OptionalTuple \<Rightarrow> 'pset \<Rightarrow> bool \<Rightarrow> ('t, 'v) OptionalTuple" where
  "do_set_value ot pset trimParents = ot\<lparr>ot_has_value := True\<rparr>"

text \<open>
  \<^verbatim>\<open>operator()(rtype& r)\<close>.  The result pairs the returned flag with the contents of
  \<open>r\<close> after the call.  In the second branch a default-constructed \<^verbatim>\<open>rtype\<close> is
  filled from the elements and swapped into \<open>r\<close>.
\<close>

definition OptionalTuple_call ::
  "('t, 'v) tt \<Rightarrow> ('t, 'v) OptionalTuple \<Rightarrow> 'v list \<Rightarrow> bool \<times> 'v list" where
  "OptionalTuple_call traits ot r =
     (if \<not> ot_has_value ot then (False, r)
      else
        let result = map (\<lambda>e. return_type_init traits (elem_type e)) (ot_value ot);
            result = assemble_rtype ot result
        in (True, result))"

subsection \<open>The non-optional counterpart\<close>

text \<open>
  Modelled from the spec: the accessors of \<^verbatim>\<open>Tuple\<close> (fhiclcpp/types/Tuple.h is not
  among the sources).  The specification has \<^verbatim>\<open>get<I>()\<close> yield the typed value of
  slot \<open>I\<close>, and the extraction of the whole tuple yield the positional aggregate of
  the slots' values.
\<close>

definition Tuple_get :: "('t, 'v) element list \<Rightarrow> nat \<Rightarrow> 'v option" where
  "Tuple_get slots I = (if I < length slots then Some (elem_value (slots ! I)) else None)"

definition Tuple_call :: "('t, 'v) element list \<Rightarrow> 'v list" where
  "Tuple_call slots = map elem_value slots"

section \<open>Validation of a parameter set against a table\<close>

text \<open>
  \<^verbatim>\<open>Table<T>::validate_ParameterSet\<close> is declared in fhiclcpp/types/Table.h; its body
  (Table.icc), the validate-then-set walker, \<^verbatim>\<open>Sequence\<close>, \<^verbatim>\<open>Tuple\<close>, \<^verbatim>\<open>Atom\<close> and
  \<^verbatim>\<open>ParameterSet\<close> are not among the sources.  Every definition of this section is
  therefore written from the specification (its sections 3, 4.A, 4.D to 4.G, 4.J and
  7), for tables whose members are atoms, sequences and tuples, nested to any depth.
  Floating-point primitives and tables nested in tables are left out.
\<close>

subsection \<open>The value tree\<close>

text \<open>
  Modelled from the spec: the values of a \<^verbatim>\<open>ParameterSet\<close>: a primitive (string, signed
  or unsigned integer, boolean), an ordered sequence of values, or a nested parameter
  set.  A parameter set is the list of its bindings in document order.
\<close>

datatype "value" =
    String string
  | Signed int
  | Unsigned nat
  | Boolean bool
  | Seq "value list"
  | Nested "(string \<times> value) list"

type_synonym ParameterSet = "(string \<times> value) list"

text \<open>Modelled from the spec: \<^verbatim>\<open>has(key)\<close>, \<^verbatim>\<open>get(key)\<close> and \<^verbatim>\<open>keys()\<close> at one level.\<close>

definition get :: "ParameterSet \<Rightarrow> string \<Rightarrow> value option" where
  "get pset k = map_of pset k"

definition has :: "ParameterSet \<Rightarrow> string \<Rightarrow> bool" where
  "has pset k = (get pset k \<noteq> None)"

definition keys :: "ParameterSet \<Rightarrow> string list" where
  "keys pset = map fst pset"

subsection \<open>Descriptors\<close>

text \<open>
  Modelled from the spec: the primitive types an atom can declare (3, without
  floating point).
\<close>

datatype prim_type = T_string | T_signed | T_unsigned | T_bool

text \<open>
  Modelled from the spec: what \<^verbatim>\<open>TypeMismatch{key, expected, actual}\<close> reports as the
  expected and the actual kind of a value.
\<close>

datatype kind = Primitive prim_type | Sequence_kind | Table_kind

fun kind_of :: "value \<Rightarrow> kind" where
  "kind_of (String s) = Primitive T_string"
| "kind_of (Signed i) = Primitive T_signed"
| "kind_of (Unsigned n) = Primitive T_unsigned"
| "kind_of (Boolean b) = Primitive T_bool"
| "kind_of (Seq vs) = Sequence_kind"
| "kind_of (Nested b) = Table_kind"

text \<open>
  Modelled from the spec: the shape a descriptor expects.  An atom has a primitive
  type; a sequence has an element descriptor and an arity, unbounded (\<open>None\<close>) or a
  bound \<open>N\<close>; a tuple has one element descriptor for each slot.
\<close>

datatype descr =
    Atom prim_type
  | Sequence descr "nat option"
  | Tuple "descr list"

text \<open>
  Modelled from the spec: a member of a table: name, comment, presence tag, shape and
  the default given at construction, if any.  The three ways of constructing one
  follow section 4.H: an optional member takes no default.
\<close>

record parameter =
  p_name :: string
  p_comment :: string
  p_presence :: value_type
  p_descr :: descr
  p_default :: "value option"

definition required_parameter :: "string \<Rightarrow> descr \<Rightarrow> parameter" where
  "required_parameter nm d =
     \<lparr>p_name = nm, p_comment = [], p_presence = REQUIRED, p_descr = d, p_default = None\<rparr>"

definition defaulted_parameter :: "string \<Rightarrow> descr \<Rightarrow> value \<Rightarrow> parameter" where
  "defaulted_parameter nm d dv =
     \<lparr>p_name = nm, p_comment = [], p_presence = DEFAULT, p_descr = d, p_default = Some dv\<rparr>"

definition optional_parameter :: "string \<Rightarrow> descr \<Rightarrow> parameter" where
  "optional_parameter nm d =
     \<lparr>p_name = nm, p_comment = [], p_presence = OPTIONAL, p_descr = d, p_default = None\<rparr>"

text \<open>
  Modelled from the spec: the arity of a descriptor: the bound of a bounded sequence,
  the number of slots of a tuple.
\<close>

fun arity :: "descr \<Rightarrow> nat option" where
  "arity (Atom t) = None"
| "arity (Sequence d n) = n"
| "arity (Tuple ds) = Some (length ds)"

subsection \<open>Diagnostics\<close>

text \<open>
  Modelled from the spec: the kinds of validation error of section 7, and the exception
  that bundles them.
\<close>

datatype diagnostic =
    MissingKey string
  | ExtraKeys "string list"
  | TypeMismatch string kind kind
  | ArityMismatch string nat nat
  | OutOfRange string "value" int

datatype validationException = validationException "diagnostic list"

subsection \<open>Validating one value\<close>

text \<open>
  Modelled from the spec (4.D): an atom reads the primitive at its key, coercing among
  the numeric variants only when lossless.  With unbounded integers the one lossy
  coercion is that of a negative number to unsigned.
\<close>

fun check_atom :: "string \<Rightarrow> prim_type \<Rightarrow> value \<Rightarrow> diagnostic list" where
  "check_atom k T_unsigned (Signed i) = (if 0 \<le> i then [] else [OutOfRange k (Signed i) 0])"
| "check_atom k T_signed (Unsigned n) = []"
| "check_atom k t v =
     (if kind_of v = Primitive t then [] else [TypeMismatch k (Primitive t) (kind_of v)])"

text \<open>
  Modelled from the spec (4.E, 4.F): a sequence or tuple wants a sequence as its value;
  a bounded sequence of arity \<open>N\<close> and a tuple of \<open>N\<close> slots want exactly \<open>N\<close>
  elements, or else report \<^verbatim>\<open>ArityMismatch{key, expected, actual}\<close>; each element is
  validated against its element descriptor under the synthetic name
  \<^verbatim>\<open><parent>[i]\<close>.  Diagnostics are collected, never cut short.
\<close>

fun check :: "string \<Rightarrow> descr \<Rightarrow> value \<Rightarrow> diagnostic list"
  and check_elements :: "string \<Rightarrow> nat \<Rightarrow> descr \<Rightarrow> value list \<Rightarrow> diagnostic list"
  and check_slots :: "string \<Rightarrow> nat \<Rightarrow> descr list \<Rightarrow> value list \<Rightarrow> diagnostic list"
where
  "check k (Atom t) v = check_atom k t v"
| "check k (Sequence d n) v =
     (case v of
        Seq vs \<Rightarrow>
          (case n of
             Some N \<Rightarrow> if length vs = N then [] else [ArityMismatch k N (length vs)]
           | None \<Rightarrow> [])
          @ check_elements k 0 d vs
      | _ \<Rightarrow> [TypeMismatch k Sequence_kind (kind_of v)])"
| "check k (Tuple ds) v =
     (case v of
        Seq vs \<Rightarrow>
          (if length vs = length ds then [] else [ArityMismatch k (length ds) (length vs)])
          @ check_slots k 0 ds vs
      | _ \<Rightarrow> [TypeMismatch k Sequence_kind (kind_of v)])"
| "check_elements k i d [] = []"
| "check_elements k i d (v # vs) =
     check (k @ sequence_element i) d v @ check_elements k (Suc i) d vs"
| "check_slots k i (d # ds) (v # vs) =
     check (k @ sequence_element i) d v @ check_slots k (Suc i) ds vs"
| "check_slots k i [] vs = []"
| "check_slots k i (d # ds) [] = []"

text \<open>
  Modelled from the spec (section 8, invariant 1): what it is for a value to have
  the shape of a descriptor, said without diagnostics: the declared primitive type
  (up to the lossless coercions), exactly \<open>N\<close> elements where an arity \<open>N\<close> is
  declared, and every element of the shape of its element descriptor.
\<close>

fun atom_conforms :: "prim_type \<Rightarrow> value \<Rightarrow> bool" where
  "atom_conforms T_unsigned (Signed i) = (0 \<le> i)"
| "atom_conforms T_signed (Unsigned n) = True"
| "atom_conforms t v = (kind_of v = Primitive t)"

fun conforms :: "descr \<Rightarrow> value \<Rightarrow> bool" where
  "conforms (Atom t) v = atom_conforms t v"
| "conforms (Sequence d n) v =
     (case v of
        Seq vs \<Rightarrow> (case n of Some N \<Rightarrow> length vs = N | None \<Rightarrow> True) \<and> list_all (conforms d) vs
      | _ \<Rightarrow> False)"
| "conforms (Tuple ds) v =
     (case v of Seq vs \<Rightarrow> list_all2 conforms ds vs | _ \<Rightarrow> False)"

subsection \<open>Validating a parameter set\<close>

text \<open>
  Modelled from the spec (4.J, phase 2): a member whose key is present will be set; an
  absent one falls back to its default, is acceptably absent when optional, and is
  missing otherwise.
\<close>

datatype mark = will_set | will_default | absent_ok | missing

definition mark_of :: "ParameterSet \<Rightarrow> parameter \<Rightarrow> mark" where
  "mark_of pset p =
     (if has pset (p_name p) then will_set
      else if p_default p \<noteq> None then will_default
      else if p_presence p = OPTIONAL then absent_ok
      else missing)"

text \<open>
  Modelled from the spec (4.G, step 2): the keys of the input that no member expects and
  the caller does not ignore.
\<close>

definition unused_keys :: "parameter list \<Rightarrow> ParameterSet \<Rightarrow> string set \<Rightarrow> string list" where
  "unused_keys members pset keysToIgnore =
     filter (\<lambda>k. k \<notin> set (map p_name members) \<union> keysToIgnore) (keys pset)"

text \<open>
  Modelled from the spec (4.J, phase 3): the members that will be set are set in the
  document order of the input; each binding is validated against the member of its
  name.
\<close>

definition set_binding :: "parameter list \<Rightarrow> string \<times> value \<Rightarrow> diagnostic list" where
  "set_binding members b =
     (case find (\<lambda>p. p_name p = fst b) members of
        Some p \<Rightarrow> check (fst b) (p_descr p) (snd b)
      | None \<Rightarrow> [])"

text \<open>
  Modelled from the spec (4.J, phase 4): all diagnostics of one pass: the missing
  members, the unused keys, and what setting the present members reported.
\<close>

definition diagnostics :: "parameter list \<Rightarrow> ParameterSet \<Rightarrow> string set \<Rightarrow> diagnostic list" where
  "diagnostics members pset keysToIgnore =
     map (\<lambda>p. MissingKey (p_name p)) (filter (\<lambda>p. mark_of pset p = missing) members)
     @ (let unused = unused_keys members pset keysToIgnore
        in if unused = [] then [] else [ExtraKeys unused])
     @ concat (map (set_binding members) pset)"

text \<open>
  Modelled from the spec (3, invariant 8, and 4.G): a validated table holds the value
  slot of each member, the input value where the key is present and the default
  otherwise, and the backing parameter set.
\<close>

record Table =
  slots :: "(string \<times> value option) list"
  get_PSet :: ParameterSet

definition populate :: "parameter list \<Rightarrow> ParameterSet \<Rightarrow> Table" where
  "populate members pset =
     \<lparr>slots = map (\<lambda>p. (p_name p,
                 case get pset (p_name p) of Some v \<Rightarrow> Some v | None \<Rightarrow> p_default p)) members,
      get_PSet = pset\<rparr>"

text \<open>
  Modelled from the spec (4.G, 4.J): \<^verbatim>\<open>validate_ParameterSet(pset, keys_to_ignore)\<close>
  either fails with the exception that bundles all diagnostics or yields the populated
  table.
\<close>

definition validate_ParameterSet ::
  "parameter list \<Rightarrow> ParameterSet \<Rightarrow> string set \<Rightarrow> validationException + Table" where
  "validate_ParameterSet members pset keysToIgnore =
     (let ds = diagnostics members pset keysToIgnore
      in if ds = [] then Inr (populate members pset) else Inl (validationException ds))"

subsection \<open>Typed accessors\<close>

text \<open>
  Modelled from the spec (4.D to 4.G): the accessor of a member of a validated table
  yields the content of its value slot; a sequence is read by position, and so is a
  tuple (\<^verbatim>\<open>get<I>()\<close>).
\<close>

definition accessor :: "Table \<Rightarrow> string \<Rightarrow> value option" where
  "accessor t nm = (case map_of (slots t) nm of Some (Some v) \<Rightarrow> Some v | _ \<Rightarrow> None)"

fun at :: "value option \<Rightarrow> nat \<Rightarrow> value option" where
  "at (Some (Seq vs)) i = (if i < length vs then Some (vs ! i) else None)"
| "at v i = None"

subsection \<open>The schemas and inputs of the test suite\<close>

text \<open>
  From fhiclcpp/test/types/bounded_sequences_with_defaults_t.cc: \<^verbatim>\<open>ArrayConfig\<close> holds
  \<^verbatim>\<open>Sequence<string, 2> composers\<close> with the default \<^verbatim>\<open>{"Mahler", "Elgar"}\<close>,
  \<^verbatim>\<open>TupleConfig\<close> holds \<^verbatim>\<open>Tuple<string, unsigned> ages\<close> with the default
  \<^verbatim>\<open>{"David", 9}\<close>.  The inputs are the empty document, \<^verbatim>\<open>composers: [Beethoven]\<close>
  and \<^verbatim>\<open>ages: [Jenny]\<close>.
\<close>

definition composers :: parameter where
  "composers =
     defaulted_parameter ''composers'' (Sequence (Atom T_string) (Some 2))
       (Seq [String ''Mahler'', String ''Elgar''])"

definition ages :: parameter where
  "ages =
     defaulted_parameter ''ages'' (Tuple [Atom T_string, Atom T_unsigned])
       (Seq [String ''David'', Unsigned 9])"

definition ArrayConfig :: "parameter list" where
  "ArrayConfig = [composers]"

definition TupleConfig :: "parameter list" where
  "TupleConfig = [ages]"

definition bad_composers :: ParameterSet where
  "bad_composers = [(''composers'', Seq [String ''Beethoven''])]"

definition bad_ages :: ParameterSet where
  "bad_ages = [(''ages'', Seq [String ''Jenny''])]"

subsection \<open>A sample instantiation of the optional tuple\<close>

text \<open>
  Modelled from the spec: three families of element types and their traits
  (fhiclcpp/type_traits.h is not among the sources): atoms, whose return type is the
  primitive, optional atoms, and table fragments.  They instantiate the type parameter
  of the optional tuple in the sample runs.
\<close>

datatype fhicl_type = Atom_t prim_type | OptionalAtom_t prim_type | TableFragment_t

fun prim_init :: "prim_type \<Rightarrow> value" where
  "prim_init T_string = String []"
| "prim_init T_signed = Signed 0"
| "prim_init T_unsigned = Unsigned 0"
| "prim_init T_bool = Boolean False"

fun fhicl_type_init :: "fhicl_type \<Rightarrow> value" where
  "fhicl_type_init (Atom_t t) = prim_init t"
| "fhicl_type_init (OptionalAtom_t t) = prim_init t"
| "fhicl_type_init TableFragment_t = Nested []"

fun is_optional_atom :: "fhicl_type \<Rightarrow> bool" where
  "is_optional_atom (OptionalAtom_t t) = True"
| "is_optional_atom T = False"

definition sample_traits :: "(fhicl_type, value) tt" where
  "sample_traits =
     \<lparr>is_table_fragment = (\<lambda>T. T = TableFragment_t),
      is_optional_parameter = is_optional_atom,
      return_type_init = fhicl_type_init\<rparr>"

text \<open>
  \<^verbatim>\<open>OptionalTuple<string, unsigned>\<close> named \<^verbatim>\<open>ages\<close>: as the constructor leaves it,
  and with the elements holding \<^verbatim>\<open>Jenny\<close> and \<open>7\<close>.
\<close>

definition ages_fresh :: "(fhicl_type, value) OptionalTuple" where
  "ages_fresh =
     \<lparr>ot_name = ''ages'', ot_comment = [], ot_value_type = OPTIONAL, ot_par_type = TUPLE,
      ot_value =
        [\<lparr>elem_type = Atom_t T_string, elem_name = ''[0]'', elem_value = String []\<rparr>,
         \<lparr>elem_type = Atom_t T_unsigned, elem_name = ''[1]'', elem_value = Unsigned 0\<rparr>],
      ot_has_value = False\<rparr>"

definition ages_filled :: "(fhicl_type, value) OptionalTuple" where
  "ages_filled =
     ages_fresh\<lparr>ot_value :=
        [\<lparr>elem_type = Atom_t T_string, elem_name = ''[0]'', elem_value = String ''Jenny''\<rparr>,
         \<lparr>elem_type = Atom_t T_unsigned, elem_name = ''[1]'', elem_value = Unsigned 7\<rparr>]\<rparr>"

definition caller_tuple :: "value list" where
  "caller_tuple = [String ''David'', Unsigned 9]"

section \<open>Properties of \<^verbatim>\<open>fhicl-dump\<close>\<close>

lemma categories_distinct:
  "help_category \<noteq> processing" "help_category \<noteq> config" "processing \<noteq> config"
  "processing \<noteq> help_category" "config \<noteq> help_category" "config \<noteq> processing"
  by (simp_all add: help_category_def processing_def config_def)

text \<open>
  The exit status along every path of \<^verbatim>\<open>main\<close> that ends in a \<^verbatim>\<open>return\<close>: the three
  categories caught by the first handler, and, once the arguments are processed and the
  policy is selected, the outcome of \<^verbatim>\<open>form_pset\<close>.
\<close>

lemma main_exit_codes:
  "(process_arguments desc parsed = Inl (Cet_exception help_category m) \<longrightarrow>
      main desc parsed form_pset = Exit 1) \<and>
   (process_arguments desc parsed = Inl (Cet_exception processing m) \<longrightarrow>
      main desc parsed form_pset = Exit 2) \<and>
   (process_arguments desc parsed = Inl (Cet_exception config m) \<longrightarrow>
      main desc parsed form_pset = Exit 3) \<and>
   (process_arguments desc parsed = Inr opts \<and>
    get_policy (lookup_policy opts) (lookup_path opts) = Inr policy \<longrightarrow>
      main desc parsed form_pset =
        (case form_pset (input_filename opts) policy of
           Inl (Cet_exception c m') \<Rightarrow> Exit 4
         | Inl _ \<Rightarrow> Exit 5
         | Inr pset \<Rightarrow> Exit 0))"
  by (auto simp: main_def main_rest_def categories_distinct split: sum.splits exn.splits)

text \<open>A missing input file is a configuration error.\<close>

lemma missing_config_exit_3:
  "\<not> vm_help vm \<Longrightarrow> vm_config vm = None \<Longrightarrow> main desc (Inr vm) form_pset = Exit 3"
  by (simp add: main_def process_arguments_def Let_def categories_distinct)

text \<open>\<^verbatim>\<open>get_policy\<close> returns a policy exactly for the codes 0 to 3.\<close>

lemma get_policy_Inr_iff: "(\<exists>policy. get_policy c p = Inr policy) \<longleftrightarrow> c \<in> {0, 1, 2, 3}"
  by (auto simp: get_policy_def)

text \<open>
  C7, at the command line \<^verbatim>\<open>fhicl-dump -l 7 -c in.fcl\<close>: the arguments are accepted,
  \<^verbatim>\<open>get_policy\<close> throws \<^verbatim>\<open>std::runtime_error\<close> for the unknown code, and nothing in
  \<^verbatim>\<open>main\<close> catches it: the run ends in \<^verbatim>\<open>std::terminate\<close>, with none of the exit
  statuses 0 to 5.
\<close>

theorem main_unknown_policy_terminates:
  "main desc (Inr vm_policy_7) form_pset =
     Terminate (Runtime_error
       ''Error: command line lookup-policy 7 is unknown; choose 0, 1, 2, or 3\<newline>'')"
  by (simp add: main_def main_rest_def process_arguments_def vm_policy_7_def Options_init_def
      get_policy_def show_int_def digit_char_def Let_def)

text \<open>
  C8: \<^verbatim>\<open>get_policy\<close> returns the policy selected by the code: 0 the plain
  \<^verbatim>\<open>filepath_maker\<close>, 1 \<^verbatim>\<open>filepath_lookup\<close>, 2 \<^verbatim>\<open>filepath_lookup_nonabsolute\<close>, 3
  \<^verbatim>\<open>filepath_lookup_after1\<close>, each of the last three on the given path; for every
  other code it throws an error naming the code and returns no policy.
\<close>

theorem get_policy_selects:
  "get_policy 0 p = Inr filepath_maker \<and>
   get_policy 1 p = Inr (filepath_lookup p) \<and>
   get_policy 2 p = Inr (filepath_lookup_nonabsolute p) \<and>
   get_policy 3 p = Inr (filepath_lookup_after1 p) \<and>
   (c \<notin> {0, 1, 2, 3} \<longrightarrow>
      get_policy c p = Inl (Runtime_error
        (''Error: command line lookup-policy '' @ show_int c @
         '' is unknown; choose 0, 1, 2, or 3\<newline>'')))"
  by (simp add: get_policy_def)

text \<open>The code 7, and the code \<open>-1\<close>, on the default path.\<close>

theorem get_policy_selects_witness:
  "(7::int) \<notin> {0, 1, 2, 3} \<and>
   get_policy 7 fhicl_env_var = Inl (Runtime_error
     ''Error: command line lookup-policy 7 is unknown; choose 0, 1, 2, or 3\<newline>'') \<and>
   (- 1::int) \<notin> {0, 1, 2, 3} \<and>
   get_policy (- 1) fhicl_env_var = Inl (Runtime_error
     ''Error: command line lookup-policy -1 is unknown; choose 0, 1, 2, or 3\<newline>'') \<and>
   get_policy 1 fhicl_env_var = Inr (filepath_lookup ''FHICL_FILE_PATH'')"
  using get_policy_selects [of fhicl_env_var 7] get_policy_selects [of fhicl_env_var "- 1"]
  by (simp add: show_int_def digit_char_def fhicl_env_var_def)

lemma process_arguments_conflict:
  assumes "\<not> vm_help vm"
    and "(vm_quiet vm \<and> (vm_annotate vm \<or> vm_prefix_annotate vm)) \<or>
         (vm_annotate vm \<and> vm_prefix_annotate vm)"
  shows "\<exists>m. process_arguments desc (Inr vm) = Inl (Cet_exception config m)"
  using assms by (auto simp: process_arguments_def Let_def)

text \<open>
  C10, as amended: for every command line that parses and does not ask for help, if it
  combines \<^verbatim>\<open>--quiet\<close> with \<^verbatim>\<open>--annotate\<close> or \<^verbatim>\<open>--prefix-annotate\<close>, or
  \<^verbatim>\<open>--annotate\<close> with \<^verbatim>\<open>--prefix-annotate\<close>, then \<^verbatim>\<open>process_arguments\<close> throws an
  exception of category \<^verbatim>\<open>Configuration\<close>, and \<^verbatim>\<open>main\<close> exits with status 3.
\<close>

theorem conflicting_options_config_error:
  assumes "\<not> vm_help vm"
    and "(vm_quiet vm \<and> (vm_annotate vm \<or> vm_prefix_annotate vm)) \<or>
         (vm_annotate vm \<and> vm_prefix_annotate vm)"
  shows "(\<exists>m. process_arguments desc (Inr vm) = Inl (Cet_exception config m)) \<and>
         main desc (Inr vm) form_pset = Exit 3"
proof -
  from process_arguments_conflict [OF assms] obtain m
    where m: "process_arguments desc (Inr vm) = Inl (Cet_exception config m)" by blast
  then have "main desc (Inr vm) form_pset = Exit 3"
    by (simp add: main_def categories_distinct)
  with m show ?thesis by blast
qed

text \<open>The command line \<^verbatim>\<open>fhicl-dump -q -a in.fcl\<close>.\<close>

theorem conflicting_options_config_error_witness:
  "\<not> vm_help vm_quiet_annotate \<and> vm_quiet vm_quiet_annotate \<and> vm_annotate vm_quiet_annotate \<and>
   process_arguments [] (Inr vm_quiet_annotate) =
     Inl (Cet_exception config
       ''Cannot specify both '--quiet' and '--(prefix-)annotate' options.\<newline>'') \<and>
   main [] (Inr vm_quiet_annotate) form_pset_ok = Exit 3"
  using conflicting_options_config_error [of vm_quiet_annotate "[]" form_pset_ok]
  by (simp add: vm_quiet_annotate_def process_arguments_def Let_def)

text \<open>
  C10 as stated fails at \<^verbatim>\<open>fhicl-dump -h -q -a in.fcl\<close>: the request for help is
  examined before the conflict, the exception has the category \<^verbatim>\<open>Help\<close>, and the
  exit status is 1.
\<close>

theorem conflicting_options_after_help:
  "vm_quiet vm_help_quiet_annotate \<and> vm_annotate vm_help_quiet_annotate \<and>
   process_arguments [] (Inr vm_help_quiet_annotate) = Inl (Cet_exception help_category []) \<and>
   help_category \<noteq> config \<and>
   main [] (Inr vm_help_quiet_annotate) form_pset_ok = Exit 1 \<and>
   main [] (Inr vm_help_quiet_annotate) form_pset_ok \<noteq> Exit 3"
  by (simp add: main_def process_arguments_def vm_help_quiet_annotate_def Let_def
      categories_distinct)

section \<open>Properties of the optional tuple\<close>

subsection \<open>Construction\<close>

text \<open>What a successful run of \<^verbatim>\<open>finalize_tuple_elements\<close> from index \<open>i\<close> has built.\<close>

lemma finalize_tuple_elements_Inr:
  "finalize_tuple_elements traits i TYPES = Inr es \<Longrightarrow>
     map elem_name es = map (\<lambda>j. sequence_element (i + j)) [0..<length TYPES] \<and>
     map elem_type es = TYPES \<and>
     map elem_value es = map (return_type_init traits) TYPES"
proof (induction TYPES arbitrary: i es)
  case Nil
  then show ?case by simp
next
  case (Cons E T)
  from Cons.prems obtain others where
    o: "finalize_tuple_elements traits (Suc i) T = Inr others"
    and es: "es = make_shared traits E (sequence_element i) # others"
    by (auto simp: Let_def split: if_splits sum.splits)
  from Cons.IH [OF o] show ?case
    by (simp add: es make_shared_def map_upt_Suc del: upt_Suc)
qed

text \<open>It fails exactly when some type of the pack trips one of the assertions.\<close>

lemma finalize_tuple_elements_Inl_iff:
  "(\<exists>msg. finalize_tuple_elements traits i TYPES = Inl msg) \<longleftrightarrow>
     (\<exists>T \<in> set TYPES. is_table_fragment traits T \<or> is_optional_parameter traits T)"
proof (induction TYPES arbitrary: i)
  case Nil
  then show ?case by simp
next
  case (Cons E T)
  from Cons.IH [of "Suc i"] show ?case
    by (auto simp: Let_def split: sum.splits)
qed

lemma finalize_tuple_elements_fragment:
  "finalize_tuple_elements traits i TYPES = Inl NO_NESTED_TABLE_FRAGMENTS \<Longrightarrow>
     \<exists>T \<in> set TYPES. is_table_fragment traits T"
  by (induction TYPES arbitrary: i) (auto simp: Let_def split: sum.splits if_splits)

lemma finalize_tuple_elements_optional:
  "finalize_tuple_elements traits i TYPES = Inl NO_OPTIONAL_TYPES \<Longrightarrow>
     \<exists>T \<in> set TYPES. is_optional_parameter traits T"
  by (induction TYPES arbitrary: i) (auto simp: Let_def split: sum.splits if_splits)

lemma OptionalTuple_ctor_Inr:
  "OptionalTuple_ctor traits TYPES nm cmt = Inr ot \<Longrightarrow>
     finalize_tuple_elements traits 0 TYPES = Inr (ot_value ot) \<and> \<not> ot_has_value ot \<and>
     ot_name ot = nm \<and> ot_comment ot = cmt \<and>
     ot_value_type ot = OPTIONAL \<and> ot_par_type ot = TUPLE"
  by (auto simp: OptionalTuple_ctor_def finalize_elements_def split: sum.splits)

lemma OptionalTuple_ctor_Inl:
  "OptionalTuple_ctor traits TYPES nm cmt = Inl msg \<longleftrightarrow>
     finalize_tuple_elements traits 0 TYPES = Inl msg"
  by (auto simp: OptionalTuple_ctor_def finalize_elements_def split: sum.splits)

lemma sample_ctor:
  "OptionalTuple_ctor sample_traits [Atom_t T_string, Atom_t T_unsigned] ''ages'' [] =
     Inr ages_fresh"
  by (simp add: OptionalTuple_ctor_def finalize_elements_def sample_traits_def
      make_shared_def sequence_element_def digit_char_def ages_fresh_def)

text \<open>
  C4: an \<^verbatim>\<open>OptionalTuple\<close> over a pack of element types is rejected when it is
  constructed, with no input in sight, exactly when one of the element types is an
  optional parameter or a table fragment.  The message \<^verbatim>\<open>NO_OPTIONAL_TYPES\<close> is due
  to an optional element type and \<^verbatim>\<open>NO_NESTED_TABLE_FRAGMENTS\<close> to a table fragment;
  a pack with optional element types and no fragment gets the first, a pack with
  fragments and no optional element type the second.
\<close>

theorem OptionalTuple_rejects_optional_and_fragment_elements:
  "((\<exists>msg. OptionalTuple_ctor traits TYPES nm cmt = Inl msg) \<longleftrightarrow>
      (\<exists>T \<in> set TYPES. is_table_fragment traits T \<or> is_optional_parameter traits T)) \<and>
   (OptionalTuple_ctor traits TYPES nm cmt = Inl NO_OPTIONAL_TYPES \<longrightarrow>
      (\<exists>T \<in> set TYPES. is_optional_parameter traits T)) \<and>
   (OptionalTuple_ctor traits TYPES nm cmt = Inl NO_NESTED_TABLE_FRAGMENTS \<longrightarrow>
      (\<exists>T \<in> set TYPES. is_table_fragment traits T)) \<and>
   ((\<exists>T \<in> set TYPES. is_optional_parameter traits T) \<and>
    (\<forall>T \<in> set TYPES. \<not> is_table_fragment traits T) \<longrightarrow>
      OptionalTuple_ctor traits TYPES nm cmt = Inl NO_OPTIONAL_TYPES) \<and>
   ((\<exists>T \<in> set TYPES. is_table_fragment traits T) \<and>
    (\<forall>T \<in> set TYPES. \<not> is_optional_parameter traits T) \<longrightarrow>
      OptionalTuple_ctor traits TYPES nm cmt = Inl NO_NESTED_TABLE_FRAGMENTS)"
proof -
  let ?c = "OptionalTuple_ctor traits TYPES nm cmt"
  have 1: "(\<exists>msg. ?c = Inl msg) \<longleftrightarrow>
      (\<exists>T \<in> set TYPES. is_table_fragment traits T \<or> is_optional_parameter traits T)"
    using finalize_tuple_elements_Inl_iff [of traits 0 TYPES]
    by (simp add: OptionalTuple_ctor_Inl)
  have 2: "?c = Inl NO_OPTIONAL_TYPES \<longrightarrow> (\<exists>T \<in> set TYPES. is_optional_parameter traits T)"
    using finalize_tuple_elements_optional [of traits 0 TYPES]
    by (simp add: OptionalTuple_ctor_Inl)
  have 3: "?c = Inl NO_NESTED_TABLE_FRAGMENTS \<longrightarrow> (\<exists>T \<in> set TYPES. is_table_fragment traits T)"
    using finalize_tuple_elements_fragment [of traits 0 TYPES]
    by (simp add: OptionalTuple_ctor_Inl)
  have 4: "?c = Inl NO_OPTIONAL_TYPES"
    if "\<exists>T \<in> set TYPES. is_optional_parameter traits T"
      and "\<forall>T \<in> set TYPES. \<not> is_table_fragment traits T"
  proof -
    from that(1) 1 obtain msg where m: "?c = Inl msg" by blast
    with 3 that(2) have "msg \<noteq> NO_NESTED_TABLE_FRAGMENTS" by blast
    with m show ?thesis by (cases msg) simp_all
  qed
  have 5: "?c = Inl NO_NESTED_TABLE_FRAGMENTS"
    if "\<exists>T \<in> set TYPES. is_table_fragment traits T"
      and "\<forall>T \<in> set TYPES. \<not> is_optional_parameter traits T"
  proof -
    from that(1) 1 obtain msg where m: "?c = Inl msg" by blast
    with 2 that(2) have "msg \<noteq> NO_OPTIONAL_TYPES" by blast
    with m show ?thesis by (cases msg) simp_all
  qed
  from 1 2 3 4 5 show ?thesis by blast
qed

text \<open>
  \<^verbatim>\<open>OptionalTuple<string, OptionalAtom<unsigned>>\<close> and
  \<^verbatim>\<open>OptionalTuple<TableFragment<..>, unsigned>\<close>.
\<close>

theorem OptionalTuple_rejects_optional_and_fragment_elements_witness:
  "OptionalTuple_ctor sample_traits [Atom_t T_string, OptionalAtom_t T_unsigned] ''ages'' [] =
     Inl NO_OPTIONAL_TYPES \<and>
   OptionalTuple_ctor sample_traits [TableFragment_t, Atom_t T_unsigned] ''ages'' [] =
     Inl NO_NESTED_TABLE_FRAGMENTS"
  using OptionalTuple_rejects_optional_and_fragment_elements
      [of sample_traits "[Atom_t T_string, OptionalAtom_t T_unsigned]" "''ages''" "[]"]
    OptionalTuple_rejects_optional_and_fragment_elements
      [of sample_traits "[TableFragment_t, Atom_t T_unsigned]" "''ages''" "[]"]
  by (simp add: sample_traits_def)

text \<open>
  C5: a constructed \<^verbatim>\<open>OptionalTuple<TYPES...>\<close> holds as many element descriptors as
  the pack has types (\<^verbatim>\<open>get_size\<close>), the \<open>i\<close>-th of them of the \<open>i\<close>-th type and
  constructed with \<^verbatim>\<open>Name::sequence_element(i)\<close>, for \<open>i\<close> from 0 in order.
\<close>

theorem OptionalTuple_size_and_names:
  "OptionalTuple_ctor traits TYPES nm cmt = Inr ot \<Longrightarrow>
     get_size ot = length TYPES \<and>
     map elem_name (ot_value ot) = map sequence_element [0..<length TYPES] \<and>
     map elem_type (ot_value ot) = TYPES"
proof -
  assume "OptionalTuple_ctor traits TYPES nm cmt = Inr ot"
  then have f: "finalize_tuple_elements traits 0 TYPES = Inr (ot_value ot)"
    by (simp add: OptionalTuple_ctor_Inr)
  from finalize_tuple_elements_Inr [OF f]
  have n: "map elem_name (ot_value ot) = map sequence_element [0..<length TYPES]"
    and t: "map elem_type (ot_value ot) = TYPES" by simp_all
  from t have "length (ot_value ot) = length TYPES" by (metis length_map)
  with n t show ?thesis by (simp add: get_size_def)
qed

text \<open>\<^verbatim>\<open>OptionalTuple<string, unsigned> ages\<close>: two elements, named \<^verbatim>\<open>[0]\<close> and \<^verbatim>\<open>[1]\<close>.\<close>

theorem OptionalTuple_size_and_names_witness:
  "OptionalTuple_ctor sample_traits [Atom_t T_string, Atom_t T_unsigned] ''ages'' [] =
     Inr ages_fresh \<and>
   get_size ages_fresh = 2 \<and>
   map elem_name (ot_value ages_fresh) = [''[0]'', ''[1]'']"
  using OptionalTuple_size_and_names [OF sample_ctor] sample_ctor
  by (simp add: sequence_element_def digit_char_def upt_conv_Cons)

subsection \<open>The accessor\<close>

text \<open>
  Filling from index \<open>I\<close> keeps what the result holds below \<open>I\<close> and stores the
  elements' values from \<open>I\<close> on.
\<close>

lemma fill_return_element_eq:
  "I \<le> get_size ot \<Longrightarrow> length result = get_size ot \<Longrightarrow>
     fill_return_element ot I result = take I result @ map elem_value (drop I (ot_value ot))"
proof (induction ot I result rule: fill_return_element.induct)
  case (1 ot I result)
  show ?case
  proof (cases "I \<ge> get_size ot")
    case True
    with "1.prems" show ?thesis
      by (subst fill_return_element.simps) (simp add: get_size_def)
  next
    case False
    then have lt: "I < length (ot_value ot)" by (simp add: get_size_def)
    have "fill_return_element ot I result =
            fill_return_element ot (I + 1) (result[I := elem_value (ot_value ot ! I)])"
      using False by (subst fill_return_element.simps) simp
    also have "\<dots> = take (I + 1) (result[I := elem_value (ot_value ot ! I)]) @
                     map elem_value (drop (I + 1) (ot_value ot))"
      using False "1.prems" by (intro "1.IH") simp_all
    also have "\<dots> = take I result @ map elem_value (drop I (ot_value ot))"
      using lt "1.prems"
      by (simp add: get_size_def take_Suc_conv_app_nth Cons_nth_drop_Suc [symmetric])
    finally show ?thesis .
  qed
qed

lemma assemble_rtype_eq:
  "length result = get_size ot \<Longrightarrow> assemble_rtype ot result = map elem_value (ot_value ot)"
  by (simp add: assemble_rtype_def fill_return_element_eq)

lemma OptionalTuple_call_present:
  "ot_has_value ot \<Longrightarrow> OptionalTuple_call traits ot r = (True, map elem_value (ot_value ot))"
  by (simp add: OptionalTuple_call_def Let_def assemble_rtype_eq get_size_def)

text \<open>Walking the elements leaves the flag as it is.\<close>

lemma do_walk_elements_has_value:
  "do_walk_elements traits pw w ot = Inr (ot', w') \<Longrightarrow> ot_has_value ot' = ot_has_value ot"
  by (auto simp: do_walk_elements_def split: sum.splits)

text \<open>
  C3: an \<^verbatim>\<open>OptionalTuple\<close> as constructed, which no default can have filled since
  the constructors take a name and a comment only, reports absence, and so does every
  descriptor whose flag \<^verbatim>\<open>has_value_\<close> is unset; once \<^verbatim>\<open>do_set_value\<close> has been
  invoked, as it is when the key is present in the input, the accessor returns
  \<^verbatim>\<open>true\<close> and delivers the tuple of the elements' values, which is what the
  non-optional \<^verbatim>\<open>Tuple\<close> yields for the same elements.
\<close>

theorem OptionalTuple_accessor:
  "(OptionalTuple_ctor traits TYPES nm cmt = Inr ot \<longrightarrow>
      OptionalTuple_call traits ot r = (False, r)) \<and>
   (\<not> ot_has_value ot \<longrightarrow> fst (OptionalTuple_call traits ot r) = False) \<and>
   OptionalTuple_call traits (do_set_value ot pset trimParents) r =
     (True, Tuple_call (ot_value ot)) \<and>
   (ot_has_value ot \<longrightarrow> OptionalTuple_call traits ot r = (True, Tuple_call (ot_value ot)))"
proof -
  have 1: "OptionalTuple_call traits ot r = (False, r)"
    if "OptionalTuple_ctor traits TYPES nm cmt = Inr ot"
    using OptionalTuple_ctor_Inr [OF that] by (simp add: OptionalTuple_call_def)
  have 2: "\<not> ot_has_value ot \<longrightarrow> fst (OptionalTuple_call traits ot r) = False"
    by (simp add: OptionalTuple_call_def)
  have 3: "OptionalTuple_call traits x r = (True, Tuple_call (ot_value x))"
    if "ot_has_value x" for x
    using that by (simp add: OptionalTuple_call_present Tuple_call_def)
  from 3 [of "do_set_value ot pset trimParents"]
  have 4: "OptionalTuple_call traits (do_set_value ot pset trimParents) r =
     (True, Tuple_call (ot_value ot))"
    by (simp add: do_set_value_def)
  from 1 2 3 [of ot] 4 show ?thesis by blast
qed

text \<open>
  The tuple \<^verbatim>\<open>ages\<close> as constructed, and after its elements were set to \<^verbatim>\<open>Jenny\<close> and
  \<open>7\<close> and \<^verbatim>\<open>do_set_value\<close> was invoked.
\<close>

theorem OptionalTuple_accessor_witness:
  "OptionalTuple_ctor sample_traits [Atom_t T_string, Atom_t T_unsigned] ''ages'' [] =
     Inr ages_fresh \<and>
   OptionalTuple_call sample_traits ages_fresh caller_tuple = (False, caller_tuple) \<and>
   OptionalTuple_call sample_traits (do_set_value ages_filled bad_ages False) caller_tuple =
     (True, [String ''Jenny'', Unsigned 7])"
proof -
  from OptionalTuple_accessor
    [of sample_traits "[Atom_t T_string, Atom_t T_unsigned]" "''ages''" "[]"
      ages_fresh caller_tuple bad_ages False] sample_ctor
  have a: "OptionalTuple_call sample_traits ages_fresh caller_tuple = (False, caller_tuple)"
    by blast
  from OptionalTuple_accessor
    [of sample_traits "[]" "[]" "[]" ages_filled caller_tuple bad_ages False]
  have "OptionalTuple_call sample_traits (do_set_value ages_filled bad_ages False) caller_tuple =
     (True, Tuple_call (ot_value ages_filled))"
    by blast
  then have b:
    "OptionalTuple_call sample_traits (do_set_value ages_filled bad_ages False) caller_tuple =
     (True, [String ''Jenny'', Unsigned 7])"
    by (simp add: Tuple_call_def ages_filled_def)
  from a b sample_ctor show ?thesis by simp
qed

text \<open>
  C9: while \<^verbatim>\<open>has_value_\<close> is unset, the accessor returns \<^verbatim>\<open>false\<close> and the caller's
  tuple \<open>r\<close> is what it was; when it is set, the accessor returns \<^verbatim>\<open>true\<close> and \<open>r\<close>
  holds the values of the elements, whatever it held before; so \<open>r\<close> changes only in
  the present state.
\<close>

theorem OptionalTuple_call_frame:
  "(\<not> ot_has_value ot \<longrightarrow> OptionalTuple_call traits ot r = (False, r)) \<and>
   (ot_has_value ot \<longrightarrow>
      OptionalTuple_call traits ot r = (True, map elem_value (ot_value ot))) \<and>
   (snd (OptionalTuple_call traits ot r) \<noteq> r \<longrightarrow> ot_has_value ot)"
proof (cases "ot_has_value ot")
  case True
  then show ?thesis by (simp add: OptionalTuple_call_present)
next
  case False
  then show ?thesis by (simp add: OptionalTuple_call_def)
qed

text \<open>The caller's tuple \<^verbatim>\<open>("David", 9)\<close> before and after the two calls.\<close>

theorem OptionalTuple_call_frame_witness:
  "\<not> ot_has_value ages_fresh \<and>
   OptionalTuple_call sample_traits ages_fresh caller_tuple = (False, caller_tuple) \<and>
   ot_has_value (ages_filled\<lparr>ot_has_value := True\<rparr>) \<and>
   OptionalTuple_call sample_traits (ages_filled\<lparr>ot_has_value := True\<rparr>) caller_tuple =
     (True, [String ''Jenny'', Unsigned 7])"
  using OptionalTuple_call_frame [of ages_fresh sample_traits caller_tuple]
    OptionalTuple_call_frame [of "ages_filled\<lparr>ot_has_value := True\<rparr>" sample_traits caller_tuple]
  by (simp add: ages_fresh_def ages_filled_def)

section \<open>Properties of validation\<close>

subsection \<open>Diagnostics and shapes\<close>

lemma check_atom_nil: "(check_atom k t v = []) = atom_conforms t v"
  by (induction k t v rule: check_atom.induct) auto

text \<open>A value draws no diagnostic exactly when it has the shape of the descriptor.\<close>

lemma check_nil:
  "(check k d v = []) = conforms d v"
  "(check_elements k i d vs = []) = list_all (conforms d) vs"
  "length vs = length ds \<Longrightarrow> (check_slots k i ds vs = []) = list_all2 conforms ds vs"
proof (induction k d v and k i d vs and k i ds vs rule: check_check_elements_check_slots.induct)
  case (1 k t v)
  then show ?case by (simp add: check_atom_nil)
next
  case (2 k d n v)
  then show ?case by (cases v; cases n) auto
next
  case (3 k ds v)
  then show ?case by (cases v) (auto dest: list_all2_lengthD)
next
  case (4 k i d)
  then show ?case by simp
next
  case (5 k i d v vs)
  then show ?case by simp
next
  case (6 k i d ds v vs)
  then show ?case by simp
next
  case (7 k i vs)
  then show ?case by simp
next
  case (8 k i d ds)
  then show ?case by simp
qed

lemma check_arity:
  "arity d = Some N \<Longrightarrow> length vs \<noteq> N \<Longrightarrow>
     ArityMismatch k N (length vs) \<in> set (check k d (Seq vs))"
  by (cases d) auto

lemma conforms_arity:
  "arity d = Some N \<Longrightarrow> conforms d (Seq vs) \<Longrightarrow> length vs = N"
  by (cases d) (auto dest: list_all2_lengthD)

subsection \<open>Members and bindings\<close>

lemma find_member:
  "distinct (map p_name members) \<Longrightarrow> p \<in> set members \<Longrightarrow>
     find (\<lambda>q. p_name q = p_name p) members = Some p"
  by (induction members) force+

lemma find_other_name:
  "k \<noteq> n \<Longrightarrow>
     find (\<lambda>q. p_name q = k) (filter (\<lambda>q. p_name q \<noteq> n) members) =
     find (\<lambda>q. p_name q = k) members"
  by (induction members) auto

lemma remove1_by_name:
  "distinct (map p_name members) \<Longrightarrow> p \<in> set members \<Longrightarrow>
     remove1 p members = filter (\<lambda>q. p_name q \<noteq> p_name p) members"
proof (induction members)
  case Nil
  then show ?case by simp
next
  case (Cons q qs)
  show ?case
  proof (cases "q = p")
    case True
    with Cons.prems have "p_name p \<notin> p_name ` set qs" by simp
    then have "\<forall>r \<in> set qs. p_name r \<noteq> p_name p" by (metis imageI)
    then have "filter (\<lambda>q. p_name q \<noteq> p_name p) qs = qs" by (simp add: filter_id_conv)
    with True show ?thesis by simp
  next
    case False
    with Cons show ?thesis by auto
  qed
qed

lemma has_keys: "has pset k \<longleftrightarrow> k \<in> set (keys pset)"
  by (simp add: has_def get_def keys_def map_of_eq_None_iff)

lemma get_in_set: "get pset k = Some v \<Longrightarrow> (k, v) \<in> set pset"
  by (simp add: get_def map_of_SomeD)

lemma set_binding_member:
  "distinct (map p_name members) \<Longrightarrow> p \<in> set members \<Longrightarrow>
     set_binding members (p_name p, v) = check (p_name p) (p_descr p) v"
  by (simp add: set_binding_def find_member)

lemma set_binding_in_diagnostics:
  "b \<in> set pset \<Longrightarrow> set (set_binding members b) \<subseteq> set (diagnostics members pset ign)"
  by (auto simp: diagnostics_def)

lemma validate_Inr:
  "validate_ParameterSet members pset ign = Inr t \<Longrightarrow> t = populate members pset"
  by (auto simp: validate_ParameterSet_def Let_def split: if_splits)

lemma validate_succeeds_iff:
  "(\<exists>t. validate_ParameterSet members pset ign = Inr t) \<longleftrightarrow> diagnostics members pset ign = []"
  by (auto simp: validate_ParameterSet_def Let_def)

text \<open>
  A table of one member, validated against an input that binds just that member's key,
  succeeds exactly when the value has the shape of the member.
\<close>

lemma single_member_validates_iff:
  "(\<exists>t. validate_ParameterSet [p] [(p_name p, v)] ign = Inr t) \<longleftrightarrow> conforms (p_descr p) v"
  by (simp add: validate_succeeds_iff diagnostics_def mark_of_def has_def get_def
      unused_keys_def keys_def set_binding_def check_nil)

subsection \<open>Defaults\<close>

text \<open>
  A member that has a default and whose key the input omits adds nothing to the
  diagnostics: they are those of the table without that member.
\<close>

lemma diagnostics_without_defaulted:
  assumes "p \<in> set members" and "distinct (map p_name members)"
    and "p_default p = Some dv" and "\<not> has pset (p_name p)"
  shows "diagnostics members pset ign = diagnostics (remove1 p members) pset ign"
proof -
  let ?rest = "filter (\<lambda>q. p_name q \<noteq> p_name p) members"
  have rest: "remove1 p members = ?rest"
    using assms(1,2) by (simp add: remove1_by_name)
  have not_missing: "mark_of pset q \<noteq> missing"
    if "q \<in> set members" "p_name q = p_name p" for q
  proof -
    from that assms(1,2) have "q = p" by (auto simp: distinct_map inj_on_def)
    with assms(3,4) show ?thesis by (simp add: mark_of_def)
  qed
  have m: "filter (\<lambda>q. mark_of pset q = missing) ?rest =
           filter (\<lambda>q. mark_of pset q = missing) members"
    using not_missing by (auto intro: filter_cong)
  have u: "unused_keys ?rest pset ign = unused_keys members pset ign"
    unfolding unused_keys_def
  proof (rule filter_cong [OF refl])
    fix k assume "k \<in> set (keys pset)"
    with assms(4) have "k \<noteq> p_name p" by (auto simp: has_keys)
    then show "(k \<notin> set (map p_name ?rest) \<union> ign) = (k \<notin> set (map p_name members) \<union> ign)"
      by auto
  qed
  have s: "map (set_binding ?rest) pset = map (set_binding members) pset"
  proof (rule map_cong [OF refl])
    fix b assume "b \<in> set pset"
    then have "fst b \<in> set (keys pset)" by (simp add: keys_def)
    with assms(4) have "fst b \<noteq> p_name p" by (auto simp: has_keys)
    then show "set_binding ?rest b = set_binding members b"
      by (simp add: set_binding_def find_other_name)
  qed
  show ?thesis
    unfolding rest diagnostics_def m u s ..
qed

lemma slot_of_member:
  "distinct (map p_name members) \<Longrightarrow> p \<in> set members \<Longrightarrow>
     map_of (map (\<lambda>q. (p_name q, f q)) members) (p_name p) = Some (f p)"
  by (induction members) (auto simp: image_iff)

lemma accessor_populate:
  assumes "p \<in> set members" and "distinct (map p_name members)"
  shows "accessor (populate members pset) (p_name p) =
           (case get pset (p_name p) of Some v \<Rightarrow> Some v | None \<Rightarrow> p_default p)"
proof -
  have "map_of (slots (populate members pset)) (p_name p) =
          Some (case get pset (p_name p) of Some v \<Rightarrow> Some v | None \<Rightarrow> p_default p)"
    using slot_of_member [OF assms(2,1),
        of "\<lambda>q. case get pset (p_name q) of Some v \<Rightarrow> Some v | None \<Rightarrow> p_default q"]
    by (simp add: populate_def)
  then show ?thesis
    by (simp add: accessor_def split: option.splits)
qed

text \<open>
  C1: let a member of a table (with distinct member names) have a default.  If the
  input omits its key, validation succeeds exactly when it does for the table without
  that member, so the omission is no error, and the table of that member alone
  validates against the empty document.  After a successful validation the accessor
  of the member yields the default when the key is omitted and the input value when
  the key is present.
\<close>

theorem default_or_input:
  assumes "p \<in> set members" and "distinct (map p_name members)" and "p_default p = Some dv"
  shows "(\<not> has pset (p_name p) \<longrightarrow>
            ((\<exists>t. validate_ParameterSet members pset ign = Inr t) \<longleftrightarrow>
             (\<exists>t. validate_ParameterSet (remove1 p members) pset ign = Inr t))) \<and>
         (\<exists>t. validate_ParameterSet [p] [] ign = Inr t) \<and>
         (validate_ParameterSet members pset ign = Inr t \<longrightarrow>
            accessor t (p_name p) =
              (case get pset (p_name p) of Some v \<Rightarrow> Some v | None \<Rightarrow> Some dv))"
proof -
  have 1: "(\<exists>t. validate_ParameterSet members pset ign = Inr t) \<longleftrightarrow>
           (\<exists>t. validate_ParameterSet (remove1 p members) pset ign = Inr t)"
    if "\<not> has pset (p_name p)"
    using diagnostics_without_defaulted [OF assms that, of ign]
    by (simp add: validate_succeeds_iff)
  have 2: "\<exists>t. validate_ParameterSet [p] [] ign = Inr t"
    using assms(3)
    by (simp add: validate_succeeds_iff diagnostics_def mark_of_def has_def get_def
        unused_keys_def keys_def)
  have 3: "accessor t (p_name p) =
             (case get pset (p_name p) of Some v \<Rightarrow> Some v | None \<Rightarrow> Some dv)"
    if "validate_ParameterSet members pset ign = Inr t"
    using validate_Inr [OF that] accessor_populate [OF assms(1,2), of pset] assms(3)
    by (simp split: option.splits)
  from 1 2 3 show ?thesis by blast
qed

lemma sample_schemas:
  "composers \<in> set ArrayConfig" "distinct (map p_name ArrayConfig)"
  "p_default composers = Some (Seq [String ''Mahler'', String ''Elgar''])"
  "p_name composers = ''composers''"
  "p_descr composers = Sequence (Atom T_string) (Some 2)"
  "ages \<in> set TupleConfig" "distinct (map p_name TupleConfig)"
  "p_default ages = Some (Seq [String ''David'', Unsigned 9])"
  "p_name ages = ''ages''"
  "p_descr ages = Tuple [Atom T_string, Atom T_unsigned]"
  by (simp_all add: ArrayConfig_def TupleConfig_def composers_def ages_def
      defaulted_parameter_def)

lemma sample_validations:
  "validate_ParameterSet ArrayConfig [] {} = Inr (populate ArrayConfig [])"
  "validate_ParameterSet TupleConfig [] {} = Inr (populate TupleConfig [])"
  by (simp_all add: validate_ParameterSet_def diagnostics_def ArrayConfig_def TupleConfig_def
      composers_def ages_def defaulted_parameter_def mark_of_def has_def get_def
      unused_keys_def keys_def)

text \<open>
  The test cases \<^verbatim>\<open>GoodArray\<close> and \<^verbatim>\<open>GoodTuple\<close>: the empty document validates, and
  the accessors yield \<^verbatim>\<open>Mahler\<close>, \<^verbatim>\<open>Elgar\<close> and \<^verbatim>\<open>David\<close>, \<open>9\<close>.
\<close>

theorem default_or_input_witness:
  "(\<exists>t. validate_ParameterSet ArrayConfig [] {} = Inr t) \<and>
   at (accessor (populate ArrayConfig []) ''composers'') 0 = Some (String ''Mahler'') \<and>
   at (accessor (populate ArrayConfig []) ''composers'') 1 = Some (String ''Elgar'') \<and>
   (\<exists>t. validate_ParameterSet TupleConfig [] {} = Inr t) \<and>
   at (accessor (populate TupleConfig []) ''ages'') 0 = Some (String ''David'') \<and>
   at (accessor (populate TupleConfig []) ''ages'') 1 = Some (Unsigned 9)"
proof -
  from default_or_input [OF sample_schemas(1,2,3), of "[]" "{}" "populate ArrayConfig []"]
    sample_validations(1)
  have "accessor (populate ArrayConfig []) ''composers'' =
          Some (Seq [String ''Mahler'', String ''Elgar''])"
    by (simp add: sample_schemas(4) get_def)
  moreover
  from default_or_input [OF sample_schemas(6,7,8), of "[]" "{}" "populate TupleConfig []"]
    sample_validations(2)
  have "accessor (populate TupleConfig []) ''ages'' = Some (Seq [String ''David'', Unsigned 9])"
    by (simp add: sample_schemas(9) get_def)
  ultimately show ?thesis using sample_validations by simp
qed

subsection \<open>Arity\<close>

text \<open>
  C2: let a member of a table (with distinct member names) be a bounded sequence or a
  tuple of arity \<open>N\<close>, and let the input bind its key to a sequence.  If the length of
  that sequence differs from \<open>N\<close>, validation fails with an exception whose diagnostics
  contain \<^verbatim>\<open>ArityMismatch\<close> with the member's key, \<open>N\<close> and the actual length.  If
  validation succeeds, the sequence has exactly \<open>N\<close> elements and the shape of the
  member: every element has the shape of its element descriptor.
\<close>

theorem arity_mismatch:
  assumes "p \<in> set members" and "distinct (map p_name members)"
    and "get pset (p_name p) = Some (Seq vs)" and "arity (p_descr p) = Some N"
  shows "(length vs \<noteq> N \<longrightarrow>
            (\<exists>ds. validate_ParameterSet members pset ign = Inl (validationException ds) \<and>
                  ArityMismatch (p_name p) N (length vs) \<in> set ds)) \<and>
         ((\<exists>t. validate_ParameterSet members pset ign = Inr t) \<longrightarrow>
            length vs = N \<and> conforms (p_descr p) (Seq vs))"
proof -
  let ?b = "(p_name p, Seq vs)"
  have b: "?b \<in> set pset" using assms(3) by (rule get_in_set)
  have sb: "set_binding members ?b = check (p_name p) (p_descr p) (Seq vs)"
    using assms(1,2) by (simp add: set_binding_member)
  have sub: "set (check (p_name p) (p_descr p) (Seq vs)) \<subseteq> set (diagnostics members pset ign)"
    using set_binding_in_diagnostics [OF b, of members ign] by (simp add: sb)
  have 1: "\<exists>ds. validate_ParameterSet members pset ign = Inl (validationException ds) \<and>
                ArityMismatch (p_name p) N (length vs) \<in> set ds"
    if "length vs \<noteq> N"
  proof -
    from check_arity [OF assms(4) that] sub
    have "ArityMismatch (p_name p) N (length vs) \<in> set (diagnostics members pset ign)"
      by blast
    then show ?thesis
      by (auto simp: validate_ParameterSet_def Let_def)
  qed
  have 2: "length vs = N \<and> conforms (p_descr p) (Seq vs)"
    if "\<exists>t. validate_ParameterSet members pset ign = Inr t"
  proof -
    from that have "diagnostics members pset ign = []"
      by (simp add: validate_succeeds_iff)
    with sub have "check (p_name p) (p_descr p) (Seq vs) = []" by simp
    then have "conforms (p_descr p) (Seq vs)" by (simp add: check_nil)
    with conforms_arity [OF assms(4)] show ?thesis by blast
  qed
  from 1 2 show ?thesis by blast
qed

text \<open>
  The test cases \<^verbatim>\<open>BadSequence\<close> and \<^verbatim>\<open>BadTuple\<close>: \<^verbatim>\<open>composers: [Beethoven]\<close> and
  \<^verbatim>\<open>ages: [Jenny]\<close> are one element long where two are expected.
\<close>

theorem arity_mismatch_witness:
  "get bad_composers (p_name composers) = Some (Seq [String ''Beethoven'']) \<and>
   arity (p_descr composers) = Some 2 \<and>
   (\<exists>ds. validate_ParameterSet ArrayConfig bad_composers {} = Inl (validationException ds) \<and>
         ArityMismatch ''composers'' 2 1 \<in> set ds) \<and>
   get bad_ages (p_name ages) = Some (Seq [String ''Jenny'']) \<and>
   arity (p_descr ages) = Some 2 \<and>
   (\<exists>ds. validate_ParameterSet TupleConfig bad_ages {} = Inl (validationException ds) \<and>
         ArityMismatch ''ages'' 2 1 \<in> set ds)"
proof -
  have g: "get bad_composers (p_name composers) = Some (Seq [String ''Beethoven''])"
    "get bad_ages (p_name ages) = Some (Seq [String ''Jenny''])"
    "arity (p_descr composers) = Some 2" "arity (p_descr ages) = Some 2"
    by (simp_all add: get_def bad_composers_def bad_ages_def sample_schemas)
  from arity_mismatch [OF sample_schemas(1,2) g(1,3), of "{}"]
  have 1: "\<exists>ds. validate_ParameterSet ArrayConfig bad_composers {} = Inl (validationException ds) \<and>
         ArityMismatch ''composers'' 2 1 \<in> set ds"
    by (simp add: sample_schemas)
  from arity_mismatch [OF sample_schemas(6,7) g(2,4), of "{}"]
  have 2: "\<exists>ds. validate_ParameterSet TupleConfig bad_ages {} = Inl (validationException ds) \<and>
         ArityMismatch ''ages'' 2 1 \<in> set ds"
    by (simp add: sample_schemas)
  from g 1 2 show ?thesis by blast
qed

text \<open>The exceptions of the two test cases hold nothing but the arity mismatch.\<close>

lemma bad_inputs_diagnostics:
  "validate_ParameterSet ArrayConfig bad_composers {} =
     Inl (validationException [ArityMismatch ''composers'' 2 1])"
  "validate_ParameterSet TupleConfig bad_ages {} =
     Inl (validationException [ArityMismatch ''ages'' 2 1])"
  by (simp_all add: validate_ParameterSet_def diagnostics_def ArrayConfig_def TupleConfig_def
      composers_def ages_def defaulted_parameter_def mark_of_def has_def get_def
      unused_keys_def keys_def set_binding_def bad_composers_def bad_ages_def
      sequence_element_def digit_char_def)

end
